theory Spec2Isabelle
  imports Complex_Main "HOL-Library.Sublist" "HOL-Library.Multiset"
begin

section \<open>JavaScript numbers\<close>

text \<open>
  The engine computes on JavaScript numbers. A finite double is taken as the exact
  rational it denotes (rounding, overflow and the sign of zero are left out); the three
  special values are kept, with the arithmetic and comparisons of IEEE 754: a division by
  zero gives an infinity or NaN, and every comparison with NaN is false.
\<close>

datatype jsnum = Finite rat | PosInfinity | NegInfinity | NaN

fun jneg :: "jsnum \<Rightarrow> jsnum" where
  "jneg (Finite a) = Finite (- a)"
| "jneg PosInfinity = NegInfinity"
| "jneg NegInfinity = PosInfinity"
| "jneg NaN = NaN"

fun jadd :: "jsnum \<Rightarrow> jsnum \<Rightarrow> jsnum" where
  "jadd (Finite a) (Finite b) = Finite (a + b)"
| "jadd NaN _ = NaN"
| "jadd _ NaN = NaN"
| "jadd PosInfinity NegInfinity = NaN"
| "jadd NegInfinity PosInfinity = NaN"
| "jadd PosInfinity _ = PosInfinity"
| "jadd NegInfinity _ = NegInfinity"
| "jadd _ PosInfinity = PosInfinity"
| "jadd _ NegInfinity = NegInfinity"

definition jsub :: "jsnum \<Rightarrow> jsnum \<Rightarrow> jsnum" where
  "jsub a b = jadd a (jneg b)"

text \<open>The sign of a number: \<open>Some True\<close> positive, \<open>Some False\<close> negative, \<open>None\<close>
  for zero and NaN.\<close>

fun jsign :: "jsnum \<Rightarrow> bool option" where
  "jsign (Finite a) = (if a = 0 then None else Some (0 < a))"
| "jsign PosInfinity = Some True"
| "jsign NegInfinity = Some False"
| "jsign NaN = None"

definition signedInfinity :: "bool \<Rightarrow> jsnum" where
  "signedInfinity pos = (if pos then PosInfinity else NegInfinity)"

fun jmul :: "jsnum \<Rightarrow> jsnum \<Rightarrow> jsnum" where
  "jmul (Finite a) (Finite b) = Finite (a * b)"
| "jmul NaN _ = NaN"
| "jmul _ NaN = NaN"
| "jmul a b =
     (case (jsign a, jsign b) of
        (Some s, Some t) \<Rightarrow> signedInfinity (s = t)
      | _ \<Rightarrow> NaN)"

fun jdiv :: "jsnum \<Rightarrow> jsnum \<Rightarrow> jsnum" where
  "jdiv (Finite a) (Finite b) =
     (if b = 0 then (if a = 0 then NaN else signedInfinity (0 < a)) else Finite (a / b))"
| "jdiv NaN _ = NaN"
| "jdiv _ NaN = NaN"
| "jdiv (Finite a) _ = Finite 0"
| "jdiv PosInfinity (Finite b) = signedInfinity (0 \<le> b)"
| "jdiv NegInfinity (Finite b) = signedInfinity (b < 0)"
| "jdiv _ _ = NaN"

fun jabs :: "jsnum \<Rightarrow> jsnum" where
  "jabs (Finite a) = Finite \<bar>a\<bar>"
| "jabs NegInfinity = PosInfinity"
| "jabs x = x"

text \<open>\<open>jgt a b\<close> is the JavaScript comparison \<open>a > b\<close>.\<close>

fun jgt :: "jsnum \<Rightarrow> jsnum \<Rightarrow> bool" where
  "jgt (Finite a) (Finite b) = (b < a)"
| "jgt NaN _ = False"
| "jgt _ NaN = False"
| "jgt PosInfinity PosInfinity = False"
| "jgt PosInfinity _ = True"
| "jgt NegInfinity _ = False"
| "jgt _ NegInfinity = True"
| "jgt _ PosInfinity = False"

text \<open>A number used as a condition: zero and NaN are falsy.\<close>

fun truthy :: "jsnum \<Rightarrow> bool" where
  "truthy (Finite a) = (a \<noteq> 0)"
| "truthy NaN = False"
| "truthy _ = True"

text \<open>\<open>Math.round\<close>: the nearest integer, a tie going up.\<close>

fun mathRound :: "jsnum \<Rightarrow> jsnum" where
  "mathRound (Finite a) = Finite (of_int \<lfloor>a + 1 / 2\<rfloor>)"
| "mathRound x = x"

section \<open>The data model (types.ts, alphaVantage.ts)\<close>

datatype Severity = Critical | High | Medium | Low

datatype Status = New | InReview | Escalated | Dismissed | Resolved

record Trader =
  trader_id :: string
  name :: string
  email :: string
  firm :: string
  registrationDate :: string

record TimelineEvent =
  event_id :: string
  event_timestamp :: string
  action :: string
  user :: string
  event_notes :: "string option"

text \<open>\<open>alert_type\<close> is the field \<open>type\<close>; at run time it is a string, and
  \<open>createAlert\<close> is what keeps it inside \<open>alertTypes\<close>.\<close>

record ComplianceAlert =
  alert_id :: string
  alert_type :: string
  severity :: Severity
  status :: Status
  trader :: Trader
  alert_timestamp :: string
  description :: string
  detectedBy :: string
  investigationNotes :: string
  timeline :: "TimelineEvent list"

record StockData =
  symbol :: string
  price :: jsnum
  volume :: jsnum
  change :: jsnum
  changePercent :: jsnum
  timestamp :: string
  previousClose :: "jsnum option"
  averageVolume :: "jsnum option"

text \<open>One point of the interval history, \<open>{ price, volume, timestamp }\<close>.\<close>

record IntradayPoint =
  i_price :: jsnum
  i_volume :: jsnum
  i_timestamp :: string

section \<open>What the engine reads from its environment\<close>

text \<open>
  \<open>generateAlertsFromStockData\<close> reads the wall clock: \<open>new Date()\<close> once, for the
  local hour, and \<open>Date.now()\<close> twice in every \<open>createAlert\<close>. \<open>clock k\<close> is the
  \<open>k\<close>-th reading of \<open>Date.now()\<close> during the call, in epoch milliseconds (a
  natural number, which a template literal prints in plain decimal digits). The
  library functions that print numbers depend on the runtime's locale and are parameters
  too, as is the ISO string of local midnight, 1 January 2020.
\<close>

record env =
  hour :: nat
  clock :: "nat \<Rightarrow> nat"
  toFixed :: "nat \<Rightarrow> jsnum \<Rightarrow> string"
  toLocaleString :: "jsnum \<Rightarrow> string"
  localEpoch2020 :: string

datatype error = TypeError

section \<open>Strings\<close>

text \<open>The decimal digits of a natural number, as a template literal prints it.\<close>

definition digit :: "nat \<Rightarrow> char" where
  "digit d = char_of (48 + d)"

function string_of_nat :: "nat \<Rightarrow> string" where
  "string_of_nat n =
     (if n < 10 then [digit n] else string_of_nat (n div 10) @ [digit (n mod 10)])"
  by pat_completeness auto
termination
  by (relation "measure (\<lambda>n. n)") auto

declare string_of_nat.simps [simp del]

definition lowerChar :: "char \<Rightarrow> char" where
  "lowerChar c =
     (let n = (of_char c :: nat) in if 65 \<le> n \<and> n \<le> 90 then char_of (n + 32) else c)"

definition toLowerCase :: "string \<Rightarrow> string" where
  "toLowerCase s = map lowerChar s"

text \<open>\<open>s.replace(a, b)\<close> with one-character strings: the first occurrence only.\<close>

fun replaceFirst :: "char \<Rightarrow> char \<Rightarrow> string \<Rightarrow> string" where
  "replaceFirst a b [] = []"
| "replaceFirst a b (c # cs) = (if c = a then b # cs else c # replaceFirst a b cs)"

text \<open>\<open>s.charCodeAt(0)\<close>: NaN, here \<open>None\<close>, on the empty string. Symbols are
  ASCII, so a \<open>char\<close> is the code unit JavaScript reads.\<close>

definition charCodeAt0 :: "string \<Rightarrow> nat option" where
  "charCodeAt0 s = (case s of [] \<Rightarrow> None | c # _ \<Rightarrow> Some (of_char c))"

section \<open>createAlert (alertGenerator.ts, lines 93-145)\<close>

definition alertTypes :: "string list" where
  "alertTypes =
     [''Market Manipulation'', ''Wash Trading'', ''Spoofing'', ''Insider Trading'',
      ''Position Limit Breach'']"

definition traderNames :: "string list" where
  "traderNames =
     [''James Mitchell'', ''Sarah Chen'', ''Michael Rodriguez'', ''Emily Johnson'',
      ''David Kim'', ''Lisa Anderson'', ''Robert Taylor'', ''Jennifer Martinez'']"

text \<open>Line 120: the identifier, from one reading of the clock and the symbol.\<close>

definition alertId :: "nat \<Rightarrow> string \<Rightarrow> string" where
  "alertId ms smb = ''ALT'' @ string_of_nat ms @ ''-'' @ smb"

text \<open>Lines 124-130: the trader profile. \<open>idx\<close> is \<open>traderIndex\<close>.\<close>

definition traderProfile :: "env \<Rightarrow> string \<Rightarrow> nat \<Rightarrow> Trader" where
  "traderProfile e smb idx =
     \<lparr> trader_id = ''TRD'' @ smb,
       name = traderNames ! idx,
       email = replaceFirst CHR '' '' CHR ''.'' (toLowerCase (traderNames ! idx)) @ ''@trading.com'',
       firm = ''Market Participant'',
       registrationDate = localEpoch2020 e \<rparr>"

text \<open>
  Lines 119-144: the object \<open>createAlert\<close> returns. It reads the clock at \<open>tick\<close>
  for the identifier and at \<open>tick + 1\<close> for the timeline event; \<open>idx\<close> is
  \<open>traderIndex\<close>.
\<close>

definition newAlert ::
  "env \<Rightarrow> nat \<Rightarrow> string \<Rightarrow> Severity \<Rightarrow> StockData \<Rightarrow> string \<Rightarrow> nat \<Rightarrow> ComplianceAlert" where
  "newAlert e tick alertType sev stockData desc idx =
     \<lparr> alert_id = alertId (clock e tick) (symbol stockData),
       alert_type = alertType,
       severity = sev,
       status = New,
       trader = traderProfile e (symbol stockData) idx,
       alert_timestamp = timestamp stockData,
       description = symbol stockData @ '': '' @ desc,
       detectedBy = ''Real-Time Market Monitoring System'',
       investigationNotes = [],
       timeline =
         [\<lparr> event_id = ''timeline-'' @ string_of_nat (clock e (tick + 1)),
            event_timestamp = timestamp stockData,
            action = ''Alert Created'',
            user = ''Automated System'',
            event_notes = Some (''Detected from live market data - Price: $''
                      @ toFixed e 2 (price stockData) @ '', Volume: ''
                      @ toLocaleString e (volume stockData)) \<rparr>] \<rparr>"

text \<open>
  \<open>createAlert e tick ty sev stockData desc\<close> returns the alert with the next free
  tick. With an empty symbol \<open>charCodeAt(0)\<close> is NaN, so \<open>traderIndex\<close> is NaN,
  \<open>traderNames[NaN]\<close> is \<open>undefined\<close>, and \<open>undefined.toLowerCase()\<close> throws a
  TypeError. The unused parameter \<open>_context\<close> is left out.
\<close>

definition createAlert ::
  "env \<Rightarrow> nat \<Rightarrow> string \<Rightarrow> Severity \<Rightarrow> StockData \<Rightarrow> string \<Rightarrow> error + (ComplianceAlert \<times> nat)" where
  "createAlert e tick ty sev stockData desc =
     (let alertType = (if ty \<in> set alertTypes then ty else ''Market Manipulation'') in
      case charCodeAt0 (symbol stockData) of
        None \<Rightarrow> Inl TypeError
      | Some code \<Rightarrow>
          let traderIndex = code mod length traderNames in
          Inr (newAlert e tick alertType sev stockData desc traderIndex, tick + 2))"

section \<open>generateAlertsFromStockData (alertGenerator.ts, lines 11-91)\<close>

text \<open>Lines 24-27: the mean of the history's volumes, or the snapshot's own volume.\<close>

definition averageVolumeOf :: "IntradayPoint list \<Rightarrow> StockData \<Rightarrow> jsnum" where
  "averageVolumeOf intraday current =
     (let volumes = map i_volume intraday in
      if length volumes > 0
      then jdiv (foldl (\<lambda>sum v. jadd sum v) (Finite 0) volumes) (Finite (of_nat (length volumes)))
      else volume current)"

text \<open>Lines 38-40, read only when the history has two points or more.\<close>

definition priceChangePercent :: "IntradayPoint list \<Rightarrow> jsnum" where
  "priceChangePercent intraday =
     (let recent = intraday ! (length intraday - 1);
          previous = intraday ! (length intraday - 2)
      in jmul (jdiv (jsub (i_price recent) (i_price previous)) (i_price previous)) (Finite 100))"

text \<open>Line 55.\<close>

definition volumeIncrease :: "StockData \<Rightarrow> jsnum \<Rightarrow> jsnum" where
  "volumeIncrease current avg = jmul (jdiv (jsub (volume current) avg) avg) (Finite 100)"

text \<open>
  The body of the \<open>forEach\<close> is four blocks, one after the other. Each is a function
  of the tick at which it starts and returns the alerts it pushes, in order, with the next
  free tick, or the error \<open>createAlert\<close> raised.
\<close>

definition push :: "error + (ComplianceAlert \<times> nat) \<Rightarrow> error + (ComplianceAlert list \<times> nat)" where
  "push r = (case r of Inl err \<Rightarrow> Inl err | Inr (a, tick') \<Rightarrow> Inr ([a], tick'))"

text \<open>Lines 36-51.\<close>

definition priceSpikeCheck ::
  "env \<Rightarrow> IntradayPoint list \<Rightarrow> StockData \<Rightarrow> nat \<Rightarrow> error + (ComplianceAlert list \<times> nat)" where
  "priceSpikeCheck e intraday current tick =
     (if length intraday \<ge> 2 then
        (let pct = priceChangePercent intraday in
         if jgt (jabs pct) (Finite 5) then
           push (createAlert e tick ''Market Manipulation''
                   (if jgt pct (Finite 5) then Critical else High)
                   current
                   (''Significant price movement detected: '' @ toFixed e 2 pct
                      @ ''% change in 15 minutes''))
         else Inr ([], tick))
      else Inr ([], tick))"

text \<open>Lines 53-63.\<close>

definition volumeSpikeCheck ::
  "env \<Rightarrow> jsnum \<Rightarrow> StockData \<Rightarrow> nat \<Rightarrow> error + (ComplianceAlert list \<times> nat)" where
  "volumeSpikeCheck e avg current tick =
     (if truthy avg \<and> jgt (volume current) (jmul avg (Finite 2)) then
        (let inc = volumeIncrease current avg in
         push (createAlert e tick ''Unusual Activity''
                 (if jgt inc (Finite 300) then Critical
                  else if jgt inc (Finite 200) then High else Medium)
                 current
                 (''Unusual trading volume detected: '' @ toFixed e 0 inc
                    @ ''% above average ('' @ toLocaleString e (volume current)
                    @ '' vs '' @ toLocaleString e (mathRound avg) @ '' avg)'')))
      else Inr ([], tick))"

text \<open>Lines 65-76.\<close>

definition afterHoursCheck ::
  "env \<Rightarrow> StockData \<Rightarrow> nat \<Rightarrow> error + (ComplianceAlert list \<times> nat)" where
  "afterHoursCheck e current tick =
     (let isAfterHours = (hour e < 9 \<or> hour e \<ge> 16) in
      if isAfterHours \<and> jgt (volume current) (Finite 1000000) then
        push (createAlert e tick ''Suspicious Trading Pattern'' High current
                (''Large after-hours trade detected: '' @ toLocaleString e (volume current)
                   @ '' shares traded outside market hours''))
      else Inr ([], tick))"

text \<open>Lines 78-87.\<close>

definition rapidChangeCheck ::
  "env \<Rightarrow> StockData option \<Rightarrow> StockData \<Rightarrow> nat \<Rightarrow> error + (ComplianceAlert list \<times> nat)" where
  "rapidChangeCheck e previous current tick =
     (if previous \<noteq> None \<and> jgt (jabs (changePercent current)) (Finite 3) then
        push (createAlert e tick ''Market Manipulation''
                (if jgt (jabs (changePercent current)) (Finite 5) then Critical else High)
                current
                (''Rapid price change: ''
                   @ (if jgt (changePercent current) (Finite 0) then ''+'' else [])
                   @ toFixed e 2 (changePercent current) @ ''%''))
      else Inr ([], tick))"

text \<open>Running one block after what came before it; an error ends the call.\<close>

definition andThen ::
  "error + (ComplianceAlert list \<times> nat) \<Rightarrow> (nat \<Rightarrow> error + (ComplianceAlert list \<times> nat))
     \<Rightarrow> error + (ComplianceAlert list \<times> nat)" where
  "andThen r block =
     (case r of
        Inl err \<Rightarrow> Inl err
      | Inr (alerts, tick) \<Rightarrow>
          (case block tick of
             Inl err \<Rightarrow> Inl err
           | Inr (pushed, tick') \<Rightarrow> Inr (alerts @ pushed, tick')))"

text \<open>Line 21: \<open>intradayDataMap.get(current.symbol) || []\<close>.\<close>

definition intradayOf :: "(string \<rightharpoonup> IntradayPoint list) \<Rightarrow> StockData \<Rightarrow> IntradayPoint list" where
  "intradayOf intradayDataMap current =
     (case intradayDataMap (symbol current) of None \<Rightarrow> [] | Some xs \<Rightarrow> xs)"

text \<open>Lines 19-88: the body of the \<open>forEach\<close> for one snapshot.\<close>

definition stockAlerts ::
  "env \<Rightarrow> (string \<rightharpoonup> StockData) \<Rightarrow> (string \<rightharpoonup> IntradayPoint list) \<Rightarrow> StockData \<Rightarrow> nat
     \<Rightarrow> error + (ComplianceAlert list \<times> nat)" where
  "stockAlerts e previousData intradayDataMap current tick =
     (let previous = previousData (symbol current);
          intraday = intradayOf intradayDataMap current;
          avg = averageVolumeOf intraday current
      in andThen (andThen (andThen (priceSpikeCheck e intraday current tick)
                                   (volumeSpikeCheck e avg current))
                          (afterHoursCheck e current))
                 (rapidChangeCheck e previous current))"

fun forEachStock ::
  "env \<Rightarrow> (string \<rightharpoonup> StockData) \<Rightarrow> (string \<rightharpoonup> IntradayPoint list) \<Rightarrow> StockData list
     \<Rightarrow> ComplianceAlert list \<Rightarrow> nat \<Rightarrow> error + (ComplianceAlert list \<times> nat)" where
  "forEachStock e previousData intradayDataMap [] alerts tick = Inr (alerts, tick)"
| "forEachStock e previousData intradayDataMap (current # rest) alerts tick =
     (case stockAlerts e previousData intradayDataMap current tick of
        Inl err \<Rightarrow> Inl err
      | Inr (pushed, tick') \<Rightarrow>
          forEachStock e previousData intradayDataMap rest (alerts @ pushed) tick')"

definition generateAlertsFromStockData ::
  "env \<Rightarrow> StockData list \<Rightarrow> (string \<rightharpoonup> StockData) \<Rightarrow> (string \<rightharpoonup> IntradayPoint list)
     \<Rightarrow> error + ComplianceAlert list" where
  "generateAlertsFromStockData e stockData previousData intradayDataMap =
     (case forEachStock e previousData intradayDataMap stockData [] 0 of
        Inl err \<Rightarrow> Inl err
      | Inr (alerts, _) \<Rightarrow> Inr alerts)"

text \<open>
  Every rule's alert has the type \<open>Market Manipulation\<close>; what tells the rules apart
  is the description, which starts with the symbol and the rule's own sentence.
\<close>

definition isMomentumAlert :: "StockData \<Rightarrow> ComplianceAlert \<Rightarrow> bool" where
  "isMomentumAlert current a =
     prefix (symbol current @ '': Significant price movement detected: '') (description a)"

definition isVolumeSpikeAlert :: "StockData \<Rightarrow> ComplianceAlert \<Rightarrow> bool" where
  "isVolumeSpikeAlert current a =
     prefix (symbol current @ '': Unusual trading volume detected: '') (description a)"

definition isAfterHoursAlert :: "StockData \<Rightarrow> ComplianceAlert \<Rightarrow> bool" where
  "isAfterHoursAlert current a =
     prefix (symbol current @ '': Large after-hours trade detected: '') (description a)"

definition isRapidChangeAlert :: "StockData \<Rightarrow> ComplianceAlert \<Rightarrow> bool" where
  "isRapidChangeAlert current a =
     prefix (symbol current @ '': Rapid price change: '') (description a)"

text \<open>
  Two predicates for the proofs. \<open>builtBy e c k a\<close>: \<open>a\<close> is what \<open>createAlert\<close>
  returns for the snapshot \<open>c\<close> when its first clock reading is the \<open>k\<close>-th; every
  call in the engine passes a type that ends as \<open>Market Manipulation\<close>.
  \<open>builtSeq e c tick l\<close>: the alerts of \<open>l\<close> were built for \<open>c\<close> one after the other
  from \<open>tick\<close> on, two readings each.
\<close>

definition builtBy :: "env \<Rightarrow> StockData \<Rightarrow> nat \<Rightarrow> ComplianceAlert \<Rightarrow> bool" where
  "builtBy e c k a \<longleftrightarrow>
     symbol c \<noteq> [] \<and>
     (\<exists>sev desc. a = newAlert e k ''Market Manipulation'' sev c desc
                      (of_char (hd (symbol c)) mod length traderNames))"

definition builtSeq :: "env \<Rightarrow> StockData \<Rightarrow> nat \<Rightarrow> ComplianceAlert list \<Rightarrow> bool" where
  "builtSeq e c tick l \<longleftrightarrow> (\<forall>i<length l. builtBy e c (tick + 2 * i) (l ! i))"

section \<open>The store: merging a batch (App.tsx, lines 81-88)\<close>

text \<open>
  \<open>getTime s\<close> is \<open>new Date(s).getTime()\<close>, the epoch milliseconds of a date string;
  the timestamps of the store are ISO strings and parse. \<open>Array.prototype.sort\<close> is
  stable, and the comparator \<open>getTime b - getTime a\<close> orders by descending time: that
  is a stable sort on the key \<open>- getTime\<close>.
\<close>

definition mergeAlerts ::
  "(string \<Rightarrow> int) \<Rightarrow> ComplianceAlert list \<Rightarrow> ComplianceAlert list \<Rightarrow> ComplianceAlert list" where
  "mergeAlerts getTime prev newAlerts =
     (let existingIds = set (map alert_id prev);
          newUniqueAlerts = filter (\<lambda>a. alert_id a \<notin> existingIds) newAlerts
      in sort_key (\<lambda>a. - getTime (alert_timestamp a)) (prev @ newUniqueAlerts))"

section \<open>The dashboard metrics (App.tsx, \<open>metrics\<close>)\<close>



subsection \<open>src/App.tsx, lines 172-201\<close>


definition pendingReview :: "ComplianceAlert list \<Rightarrow> nat" where
  "pendingReview alerts = length (filter (\<lambda>a. status a = New \<or> status a = InReview) alerts)"




subsection \<open>The later revision of App.tsx (src/unnamed/part 004, lines 181-231)\<close>



subsection \<open>The two metrics in the specification's words\<close>






section \<open>The workflow (AlertDetailModal.tsx and App.tsx)\<close>

text \<open>
  Lines 229-266 of the modal: the buttons rendered for the status of the \<open>alert\<close> prop,
  each with the arguments it passes to \<open>handleAction\<close>.
\<close>

definition buttons :: "Status \<Rightarrow> (Status \<times> string) list" where
  "buttons st =
     (if st = New then [(InReview, ''Start Investigation'')] else [])
     @ (if st \<noteq> Escalated \<and> st \<noteq> Resolved \<and> st \<noteq> Dismissed then [(Escalated, ''Escalate'')] else [])
     @ (if st \<noteq> Resolved \<and> st \<noteq> Dismissed then [(Dismissed, ''Dismiss'')] else [])
     @ (if st \<noteq> Resolved \<and> st \<noteq> Dismissed then [(Resolved, ''Mark Resolved'')] else [])"

text \<open>The object \<open>handleAction\<close> passes to \<open>onUpdate\<close>.\<close>

record AlertUpdate =
  new_status :: Status
  new_investigationNotes :: string
  new_timeline :: "TimelineEvent list"

text \<open>
  Lines 16-42 of the modal. \<open>alert\<close> is the prop, \<open>notesText\<close> the text of the notes
  field, \<open>now\<close> and \<open>nowIso\<close> are \<open>Date.now()\<close> and \<open>new Date().toISOString()\<close>
  at the click. The result is the pair of arguments of \<open>onUpdate\<close>.
\<close>

definition handleAction ::
  "ComplianceAlert \<Rightarrow> string \<Rightarrow> nat \<Rightarrow> string \<Rightarrow> Status \<Rightarrow> string \<Rightarrow> string \<times> AlertUpdate" where
  "handleAction alert notesText now nowIso newStatus actionName =
     (let timelineEvent =
            \<lparr> event_id = alert_id alert @ ''-'' @ string_of_nat now,
              event_timestamp = nowIso,
              action = actionName,
              user = ''Current User'',
              event_notes = (if notesText = [] then None else Some notesText) \<rparr>
      in (alert_id alert,
          \<lparr> new_status = newStatus,
            new_investigationNotes = notesText,
            new_timeline = timeline alert @ [timelineEvent] \<rparr>))"

text \<open>App.tsx, lines 203-207; \<open>targetId\<close> is the parameter \<open>alertId\<close>.\<close>

definition handleUpdateAlert ::
  "string \<Rightarrow> AlertUpdate \<Rightarrow> ComplianceAlert list \<Rightarrow> ComplianceAlert list" where
  "handleUpdateAlert targetId updates prev =
     map (\<lambda>alert. if alert_id alert = targetId
                  then alert\<lparr> status := new_status updates,
                              investigationNotes := new_investigationNotes updates,
                              timeline := new_timeline updates \<rparr>
                  else alert) prev"

text \<open>
  The two pieces of state of \<open>App\<close> the workflow touches: the collection, and
  \<open>selectedAlert\<close>, the object handed to the modal as its \<open>alert\<close> prop. Clicking a
  row stores that row's alert in \<open>selectedAlert\<close>; \<open>handleUpdateAlert\<close> writes the
  collection only.
\<close>

record AppState =
  app_alerts :: "ComplianceAlert list"
  app_selectedAlert :: "ComplianceAlert option"

definition openAlert :: "ComplianceAlert \<Rightarrow> AppState \<Rightarrow> AppState" where
  "openAlert alert s = s\<lparr> app_selectedAlert := Some alert \<rparr>"

definition closeModal :: "AppState \<Rightarrow> AppState" where
  "closeModal s = s\<lparr> app_selectedAlert := None \<rparr>"

text \<open>
  A click on a button of the open modal: \<open>handleAction\<close> on the prop, \<open>onUpdate\<close>
  on the collection, and \<open>onClose\<close> when the new status is Resolved or Dismissed. A
  button that is not rendered cannot be clicked.
\<close>

definition pressButton ::
  "Status \<times> string \<Rightarrow> string \<Rightarrow> nat \<Rightarrow> string \<Rightarrow> AppState \<Rightarrow> AppState" where
  "pressButton button notesText now nowIso s =
     (case app_selectedAlert s of
        None \<Rightarrow> s
      | Some alert \<Rightarrow>
          if button \<in> set (buttons (status alert)) then
            (let (targetId, updates) = handleAction alert notesText now nowIso (fst button) (snd button)
             in s\<lparr> app_alerts := handleUpdateAlert targetId updates (app_alerts s),
                   app_selectedAlert :=
                     (if fst button = Resolved \<or> fst button = Dismissed then None else Some alert) \<rparr>)
          else s)"

section \<open>Sample inputs\<close>

definition sampleEnv :: "nat \<Rightarrow> env" where
  "sampleEnv h =
     \<lparr> hour = h,
       clock = (\<lambda>k. 1700000000000),
       toFixed = (\<lambda>d x. ''#''),
       toLocaleString = (\<lambda>x. ''#''),
       localEpoch2020 = ''2020-01-01T00:00:00.000Z'' \<rparr>"

definition sampleStock :: "string \<Rightarrow> rat \<Rightarrow> rat \<Rightarrow> StockData" where
  "sampleStock s vol pct =
     \<lparr> symbol = s, price = Finite 100, volume = Finite vol, change = Finite 0,
       changePercent = Finite pct, timestamp = ''2024-01-02T15:00:00.000Z'',
       previousClose = None, averageVolume = None \<rparr>"

definition samplePoint :: "rat \<Rightarrow> rat \<Rightarrow> IntradayPoint" where
  "samplePoint p vol =
     \<lparr> i_price = Finite p, i_volume = Finite vol, i_timestamp = ''2024-01-02 15:00:00'' \<rparr>"

text \<open>A parser that knows four instants of one afternoon.\<close>

definition sampleGetTime :: "string \<Rightarrow> int" where
  "sampleGetTime s =
     (if s = ''2024-01-02T15:00:00.000Z'' then 1704207600000
      else if s = ''2024-01-02T15:00:30.000Z'' then 1704207630000
      else if s = ''2024-01-02T15:45:00.000Z'' then 1704210300000
      else if s = ''2024-01-02T16:00:00.000Z'' then 1704211200000
      else 0)"

definition sampleAlert :: "string \<Rightarrow> Status \<Rightarrow> string \<Rightarrow> TimelineEvent list \<Rightarrow> ComplianceAlert" where
  "sampleAlert i st ts events =
     \<lparr> alert_id = i, alert_type = ''Market Manipulation'', severity = High, status = st,
       trader = \<lparr> trader_id = ''TRDTSLA'', name = ''Emily Johnson'',
                  email = ''emily.johnson@trading.com'', firm = ''Market Participant'',
                  registrationDate = ''2020-01-01T00:00:00.000Z'' \<rparr>,
       alert_timestamp = ts, description = ''TSLA: sample'',
       detectedBy = ''Real-Time Market Monitoring System'', investigationNotes = [],
       timeline = events \<rparr>"


text \<open>An alert as \<open>createAlert\<close> leaves it, and the collection that holds only it.\<close>

definition freshAlert :: ComplianceAlert where
  "freshAlert = newAlert (sampleEnv 10) 0 ''Market Manipulation'' High
                  (sampleStock ''TSLA'' 1000 4) ''Rapid price change: +#%'' 4"

definition freshApp :: AppState where
  "freshApp = \<lparr> app_alerts = [freshAlert], app_selectedAlert = None \<rparr>"


section \<open>How createAlert and the four blocks behave\<close>

lemma createAlert_nonempty:
  "symbol s \<noteq> [] \<Longrightarrow> createAlert e tick ty sev s desc =
     Inr (newAlert e tick (if ty \<in> set alertTypes then ty else ''Market Manipulation'') sev s desc
            (of_char (hd (symbol s)) mod length traderNames), tick + 2)"
  by (cases "symbol s") (simp_all add: createAlert_def charCodeAt0_def)

lemma createAlert_empty:
  "symbol s = [] \<Longrightarrow> createAlert e tick ty sev s desc = Inl TypeError"
  by (simp add: createAlert_def charCodeAt0_def)

lemma andThen_Inr [simp]:
  "andThen (Inr (xs, t)) block =
     (case block t of Inl err \<Rightarrow> Inl err | Inr (ys, t') \<Rightarrow> Inr (xs @ ys, t'))"
  by (simp add: andThen_def)

lemma andThen_Inl [simp]: "andThen (Inl err) block = Inl err"
  by (simp add: andThen_def)

lemma andThen_returns:
  assumes "andThen r block = Inr (l, t')"
  obtains l1 t1 l2 where "r = Inr (l1, t1)" "block t1 = Inr (l2, t')" "l = l1 @ l2"
  using assms by (auto simp: andThen_def split: sum.splits)

lemma push_Inr [simp]: "push (Inr (a, t)) = Inr ([a], t)"
  by (simp add: push_def)

lemma push_Inl [simp]: "push (Inl err) = Inl err"
  by (simp add: push_def)

lemma description_newAlert [simp]:
  "description (newAlert e k ty sev c desc idx) = symbol c @ '': '' @ desc"
  by (simp add: newAlert_def)

lemma severity_newAlert [simp]: "severity (newAlert e k ty sev c desc idx) = sev"
  by (simp add: newAlert_def)

lemma isMomentumAlert_newAlert [simp]:
  "isMomentumAlert c (newAlert e k ty sev c desc idx)
     = prefix ''Significant price movement detected: '' desc"
  by (simp add: isMomentumAlert_def)

lemma isVolumeSpikeAlert_newAlert [simp]:
  "isVolumeSpikeAlert c (newAlert e k ty sev c desc idx)
     = prefix ''Unusual trading volume detected: '' desc"
  by (simp add: isVolumeSpikeAlert_def)

lemma isAfterHoursAlert_newAlert [simp]:
  "isAfterHoursAlert c (newAlert e k ty sev c desc idx)
     = prefix ''Large after-hours trade detected: '' desc"
  by (simp add: isAfterHoursAlert_def)

lemma isRapidChangeAlert_newAlert [simp]:
  "isRapidChangeAlert c (newAlert e k ty sev c desc idx) = prefix ''Rapid price change: '' desc"
  by (simp add: isRapidChangeAlert_def)

lemma priceSpikeCheck_nonempty:
  assumes "symbol c \<noteq> []"
  shows "priceSpikeCheck e intraday c tick =
    (if 2 \<le> length intraday \<and> jgt (jabs (priceChangePercent intraday)) (Finite 5)
     then Inr ([newAlert e tick ''Market Manipulation''
                  (if jgt (priceChangePercent intraday) (Finite 5) then Critical else High) c
                  (''Significant price movement detected: ''
                     @ toFixed e 2 (priceChangePercent intraday) @ ''% change in 15 minutes'')
                  (of_char (hd (symbol c)) mod length traderNames)], tick + 2)
     else Inr ([], tick))"
  using assms by (simp add: priceSpikeCheck_def Let_def createAlert_nonempty alertTypes_def)

lemma volumeSpikeCheck_nonempty:
  assumes "symbol c \<noteq> []"
  shows "volumeSpikeCheck e avg c tick =
    (if truthy avg \<and> jgt (volume c) (jmul avg (Finite 2))
     then Inr ([newAlert e tick ''Market Manipulation''
                  (if jgt (volumeIncrease c avg) (Finite 300) then Critical
                   else if jgt (volumeIncrease c avg) (Finite 200) then High else Medium) c
                  (''Unusual trading volume detected: '' @ toFixed e 0 (volumeIncrease c avg)
                    @ ''% above average ('' @ toLocaleString e (volume c)
                    @ '' vs '' @ toLocaleString e (mathRound avg) @ '' avg)'')
                  (of_char (hd (symbol c)) mod length traderNames)], tick + 2)
     else Inr ([], tick))"
  using assms by (simp add: volumeSpikeCheck_def Let_def createAlert_nonempty alertTypes_def)

lemma afterHoursCheck_nonempty:
  assumes "symbol c \<noteq> []"
  shows "afterHoursCheck e c tick =
    (if (hour e < 9 \<or> 16 \<le> hour e) \<and> jgt (volume c) (Finite 1000000)
     then Inr ([newAlert e tick ''Market Manipulation'' High c
                  (''Large after-hours trade detected: '' @ toLocaleString e (volume c)
                   @ '' shares traded outside market hours'')
                  (of_char (hd (symbol c)) mod length traderNames)], tick + 2)
     else Inr ([], tick))"
  using assms by (simp add: afterHoursCheck_def Let_def createAlert_nonempty alertTypes_def)

lemma rapidChangeCheck_nonempty:
  assumes "symbol c \<noteq> []"
  shows "rapidChangeCheck e previous c tick =
    (if previous \<noteq> None \<and> jgt (jabs (changePercent c)) (Finite 3)
     then Inr ([newAlert e tick ''Market Manipulation''
                  (if jgt (jabs (changePercent c)) (Finite 5) then Critical else High) c
                  (''Rapid price change: ''
                   @ (if jgt (changePercent c) (Finite 0) then ''+'' else [])
                   @ toFixed e 2 (changePercent c) @ ''%'')
                  (of_char (hd (symbol c)) mod length traderNames)], tick + 2)
     else Inr ([], tick))"
  using assms by (simp add: rapidChangeCheck_def Let_def createAlert_nonempty alertTypes_def)

text \<open>With an empty symbol a block returns only when its rule does not fire.\<close>

lemma priceSpikeCheck_empty:
  assumes "symbol c = []"
  shows "priceSpikeCheck e intraday c tick =
    (if 2 \<le> length intraday \<and> jgt (jabs (priceChangePercent intraday)) (Finite 5)
     then Inl TypeError else Inr ([], tick))"
  using assms by (simp add: priceSpikeCheck_def Let_def createAlert_empty)

lemma volumeSpikeCheck_empty:
  assumes "symbol c = []"
  shows "volumeSpikeCheck e avg c tick =
    (if truthy avg \<and> jgt (volume c) (jmul avg (Finite 2)) then Inl TypeError else Inr ([], tick))"
  using assms by (simp add: volumeSpikeCheck_def Let_def createAlert_empty)

lemma afterHoursCheck_empty:
  assumes "symbol c = []"
  shows "afterHoursCheck e c tick =
    (if (hour e < 9 \<or> 16 \<le> hour e) \<and> jgt (volume c) (Finite 1000000)
     then Inl TypeError else Inr ([], tick))"
  using assms by (simp add: afterHoursCheck_def Let_def createAlert_empty)

lemma rapidChangeCheck_empty:
  assumes "symbol c = []"
  shows "rapidChangeCheck e previous c tick =
    (if previous \<noteq> None \<and> jgt (jabs (changePercent c)) (Finite 3)
     then Inl TypeError else Inr ([], tick))"
  using assms by (simp add: rapidChangeCheck_def Let_def createAlert_empty)

text \<open>What each block pushes for a snapshot with a symbol: at most one alert, of its own
  rule, exactly when the rule's condition holds.\<close>

lemma priceSpikeCheck_shape:
  assumes "symbol c \<noteq> []"
  shows "\<exists>l. priceSpikeCheck e intraday c tick = Inr (l, tick + 2 * length l) \<and> length l \<le> 1
    \<and> (l \<noteq> [] \<longleftrightarrow> 2 \<le> length intraday \<and> jgt (jabs (priceChangePercent intraday)) (Finite 5))
    \<and> (\<forall>a\<in>set l. isMomentumAlert c a \<and> \<not> isVolumeSpikeAlert c a
          \<and> \<not> isAfterHoursAlert c a \<and> \<not> isRapidChangeAlert c a
          \<and> severity a = (if jgt (priceChangePercent intraday) (Finite 5) then Critical else High))"
  by (simp add: priceSpikeCheck_nonempty [OF assms])

lemma volumeSpikeCheck_shape:
  assumes "symbol c \<noteq> []"
  shows "\<exists>l. volumeSpikeCheck e avg c tick = Inr (l, tick + 2 * length l) \<and> length l \<le> 1
    \<and> (l \<noteq> [] \<longleftrightarrow> truthy avg \<and> jgt (volume c) (jmul avg (Finite 2)))
    \<and> (\<forall>a\<in>set l. \<not> isMomentumAlert c a \<and> isVolumeSpikeAlert c a
          \<and> \<not> isAfterHoursAlert c a \<and> \<not> isRapidChangeAlert c a
          \<and> severity a = (if jgt (volumeIncrease c avg) (Finite 300) then Critical
                   else if jgt (volumeIncrease c avg) (Finite 200) then High else Medium))"
  by (simp add: volumeSpikeCheck_nonempty [OF assms])

lemma afterHoursCheck_shape:
  assumes "symbol c \<noteq> []"
  shows "\<exists>l. afterHoursCheck e c tick = Inr (l, tick + 2 * length l) \<and> length l \<le> 1
    \<and> (l \<noteq> [] \<longleftrightarrow> (hour e < 9 \<or> 16 \<le> hour e) \<and> jgt (volume c) (Finite 1000000))
    \<and> (\<forall>a\<in>set l. \<not> isMomentumAlert c a \<and> \<not> isVolumeSpikeAlert c a
          \<and> isAfterHoursAlert c a \<and> \<not> isRapidChangeAlert c a \<and> severity a = High)"
  by (simp add: afterHoursCheck_nonempty [OF assms])

lemma rapidChangeCheck_shape:
  assumes "symbol c \<noteq> []"
  shows "\<exists>l. rapidChangeCheck e previous c tick = Inr (l, tick + 2 * length l) \<and> length l \<le> 1
    \<and> (l \<noteq> [] \<longleftrightarrow> previous \<noteq> None \<and> jgt (jabs (changePercent c)) (Finite 3))
    \<and> (\<forall>a\<in>set l. \<not> isMomentumAlert c a \<and> \<not> isVolumeSpikeAlert c a
          \<and> \<not> isAfterHoursAlert c a \<and> isRapidChangeAlert c a
          \<and> severity a = (if jgt (jabs (changePercent c)) (Finite 5) then Critical else High))"
  by (simp add: rapidChangeCheck_nonempty [OF assms])

text \<open>The four blocks in sequence: what \<open>stockAlerts\<close> returns for a snapshot with a
  symbol.\<close>

lemma stockAlerts_parts:
  assumes "symbol c \<noteq> []"
  obtains l1 l2 l3 l4 where
    "stockAlerts e p h c tick = Inr (l1 @ l2 @ l3 @ l4, tick + 2 * length (l1 @ l2 @ l3 @ l4))"
    "length l1 \<le> 1 \<and> length l2 \<le> 1 \<and> length l3 \<le> 1 \<and> length l4 \<le> 1"
    "l1 \<noteq> [] \<longleftrightarrow> 2 \<le> length (intradayOf h c)
        \<and> jgt (jabs (priceChangePercent (intradayOf h c))) (Finite 5)"
    "l2 \<noteq> [] \<longleftrightarrow> truthy (averageVolumeOf (intradayOf h c) c)
        \<and> jgt (volume c) (jmul (averageVolumeOf (intradayOf h c) c) (Finite 2))"
    "l3 \<noteq> [] \<longleftrightarrow> (hour e < 9 \<or> 16 \<le> hour e) \<and> jgt (volume c) (Finite 1000000)"
    "l4 \<noteq> [] \<longleftrightarrow> p (symbol c) \<noteq> None \<and> jgt (jabs (changePercent c)) (Finite 3)"
    "\<forall>a\<in>set l1. isMomentumAlert c a \<and> \<not> isVolumeSpikeAlert c a
          \<and> \<not> isAfterHoursAlert c a \<and> \<not> isRapidChangeAlert c a
          \<and> severity a = (if jgt (priceChangePercent (intradayOf h c)) (Finite 5)
                            then Critical else High)"
    "\<forall>a\<in>set l2. \<not> isMomentumAlert c a \<and> isVolumeSpikeAlert c a
          \<and> \<not> isAfterHoursAlert c a \<and> \<not> isRapidChangeAlert c a
          \<and> severity a =
              (if jgt (volumeIncrease c (averageVolumeOf (intradayOf h c) c)) (Finite 300)
               then Critical
               else if jgt (volumeIncrease c (averageVolumeOf (intradayOf h c) c)) (Finite 200)
               then High else Medium)"
    "\<forall>a\<in>set l3. \<not> isMomentumAlert c a \<and> \<not> isVolumeSpikeAlert c a
          \<and> isAfterHoursAlert c a \<and> \<not> isRapidChangeAlert c a \<and> severity a = High"
    "\<forall>a\<in>set l4. \<not> isMomentumAlert c a \<and> \<not> isVolumeSpikeAlert c a
          \<and> \<not> isAfterHoursAlert c a \<and> isRapidChangeAlert c a
          \<and> severity a = (if jgt (jabs (changePercent c)) (Finite 5) then Critical else High)"
proof -
  define intraday where "intraday = intradayOf h c"
  define avg where "avg = averageVolumeOf intraday c"
  obtain l1 where l1: "priceSpikeCheck e intraday c tick = Inr (l1, tick + 2 * length l1)"
    "length l1 \<le> 1"
    "l1 \<noteq> [] \<longleftrightarrow> 2 \<le> length intraday \<and> jgt (jabs (priceChangePercent intraday)) (Finite 5)"
    "\<forall>a\<in>set l1. isMomentumAlert c a \<and> \<not> isVolumeSpikeAlert c a
          \<and> \<not> isAfterHoursAlert c a \<and> \<not> isRapidChangeAlert c a
          \<and> severity a = (if jgt (priceChangePercent intraday) (Finite 5) then Critical else High)"
    using priceSpikeCheck_shape [OF assms, of e intraday tick] by blast
  define t1 where "t1 = tick + 2 * length l1"
  obtain l2 where l2: "volumeSpikeCheck e avg c t1 = Inr (l2, t1 + 2 * length l2)"
    "length l2 \<le> 1"
    "l2 \<noteq> [] \<longleftrightarrow> truthy avg \<and> jgt (volume c) (jmul avg (Finite 2))"
    "\<forall>a\<in>set l2. \<not> isMomentumAlert c a \<and> isVolumeSpikeAlert c a
          \<and> \<not> isAfterHoursAlert c a \<and> \<not> isRapidChangeAlert c a
          \<and> severity a = (if jgt (volumeIncrease c avg) (Finite 300) then Critical
                   else if jgt (volumeIncrease c avg) (Finite 200) then High else Medium)"
    using volumeSpikeCheck_shape [OF assms, of e avg t1] by blast
  define t2 where "t2 = t1 + 2 * length l2"
  obtain l3 where l3: "afterHoursCheck e c t2 = Inr (l3, t2 + 2 * length l3)"
    "length l3 \<le> 1"
    "l3 \<noteq> [] \<longleftrightarrow> (hour e < 9 \<or> 16 \<le> hour e) \<and> jgt (volume c) (Finite 1000000)"
    "\<forall>a\<in>set l3. \<not> isMomentumAlert c a \<and> \<not> isVolumeSpikeAlert c a
          \<and> isAfterHoursAlert c a \<and> \<not> isRapidChangeAlert c a \<and> severity a = High"
    using afterHoursCheck_shape [OF assms, of e t2] by blast
  define t3 where "t3 = t2 + 2 * length l3"
  obtain l4 where l4: "rapidChangeCheck e (p (symbol c)) c t3 = Inr (l4, t3 + 2 * length l4)"
    "length l4 \<le> 1"
    "l4 \<noteq> [] \<longleftrightarrow> p (symbol c) \<noteq> None \<and> jgt (jabs (changePercent c)) (Finite 3)"
    "\<forall>a\<in>set l4. \<not> isMomentumAlert c a \<and> \<not> isVolumeSpikeAlert c a
          \<and> \<not> isAfterHoursAlert c a \<and> isRapidChangeAlert c a
          \<and> severity a = (if jgt (jabs (changePercent c)) (Finite 5) then Critical else High)"
    using rapidChangeCheck_shape [OF assms, of e "p (symbol c)" t3] by blast
  have "stockAlerts e p h c tick = Inr (l1 @ l2 @ l3 @ l4, t3 + 2 * length l4)"
    by (simp add: stockAlerts_def intraday_def [symmetric] avg_def [symmetric]
        l1(1) t1_def [symmetric] l2(1) t2_def [symmetric] l3(1) t3_def [symmetric] l4(1))
  moreover have "t3 + 2 * length l4 = tick + 2 * length (l1 @ l2 @ l3 @ l4)"
    by (simp add: t3_def t2_def t1_def)
  ultimately have "stockAlerts e p h c tick
      = Inr (l1 @ l2 @ l3 @ l4, tick + 2 * length (l1 @ l2 @ l3 @ l4))"
    by simp
  then show thesis
    using that [of l1 l2 l3 l4] l1(2-) l2(2-) l3(2-) l4(2-)
    unfolding avg_def intraday_def by blast
qed

section \<open>The momentum rule\<close>



section \<open>The volume-spike rule\<close>




section \<open>An empty symbol\<close>

text \<open>
  Claim C3 says the engine returns for every input. A snapshot whose symbol is the empty
  string, with a rule that fires (here the after-hours rule, at 20:00 with a volume of
  2,000,000), makes \<open>createAlert\<close> read \<open>traderNames[NaN]\<close> and throw.
\<close>

theorem empty_symbol_raises:
  "generateAlertsFromStockData (sampleEnv 20) [sampleStock [] 2000000 0] Map.empty Map.empty
     = Inl TypeError"
  by (simp add: generateAlertsFromStockData_def stockAlerts_def intradayOf_def sampleStock_def
      averageVolumeOf_def priceSpikeCheck_def volumeSpikeCheck_def afterHoursCheck_def
      rapidChangeCheck_def sampleEnv_def createAlert_empty)
section \<open>Where the engine returns, and what absent inputs suppress\<close>

lemma volume_above_twice_itself:
  assumes "truthy v" and "jgt v (jmul v (Finite 2))"
  shows "jgt (Finite 0) v"
  using assms by (cases v) (auto simp: signedInfinity_def)

lemma absent_inputs_suppress_rules:
  assumes "symbol current \<noteq> []"
  shows "\<exists>alerts tick'.
      stockAlerts e previousData intradayDataMap current tick = Inr (alerts, tick')
    \<and> (previousData (symbol current) = None \<longrightarrow>
          (\<forall>a\<in>set alerts. \<not> isRapidChangeAlert current a))
    \<and> (length (intradayOf intradayDataMap current) < 2 \<longrightarrow>
          (\<forall>a\<in>set alerts. \<not> isMomentumAlert current a))
    \<and> (intradayOf intradayDataMap current = [] \<and> \<not> jgt (Finite 0) (volume current) \<longrightarrow>
          (\<forall>a\<in>set alerts. \<not> isVolumeSpikeAlert current a))
    \<and> (previousData (symbol current) = None \<and> intradayOf intradayDataMap current = []
          \<and> \<not> jgt (Finite 0) (volume current) \<longrightarrow>
          (\<forall>a\<in>set alerts. isAfterHoursAlert current a))"
proof -
  obtain l1 l2 l3 l4 where
    res: "stockAlerts e previousData intradayDataMap current tick
            = Inr (l1 @ l2 @ l3 @ l4, tick + 2 * length (l1 @ l2 @ l3 @ l4))"
    and len: "length l1 \<le> 1 \<and> length l2 \<le> 1 \<and> length l3 \<le> 1 \<and> length l4 \<le> 1"
    and f1: "l1 \<noteq> [] \<longleftrightarrow> 2 \<le> length (intradayOf intradayDataMap current)
        \<and> jgt (jabs (priceChangePercent (intradayOf intradayDataMap current))) (Finite 5)"
    and f2: "l2 \<noteq> [] \<longleftrightarrow> truthy (averageVolumeOf (intradayOf intradayDataMap current) current)
        \<and> jgt (volume current)
              (jmul (averageVolumeOf (intradayOf intradayDataMap current) current) (Finite 2))"
    and f3: "l3 \<noteq> [] \<longleftrightarrow> (hour e < 9 \<or> 16 \<le> hour e) \<and> jgt (volume current) (Finite 1000000)"
    and f4: "l4 \<noteq> [] \<longleftrightarrow> previousData (symbol current) \<noteq> None
        \<and> jgt (jabs (changePercent current)) (Finite 3)"
    and m1: "\<forall>a\<in>set l1. isMomentumAlert current a \<and> \<not> isVolumeSpikeAlert current a
          \<and> \<not> isAfterHoursAlert current a \<and> \<not> isRapidChangeAlert current a
          \<and> severity a = (if jgt (priceChangePercent (intradayOf intradayDataMap current)) (Finite 5)
                            then Critical else High)"
    and m2: "\<forall>a\<in>set l2. \<not> isMomentumAlert current a \<and> isVolumeSpikeAlert current a
          \<and> \<not> isAfterHoursAlert current a \<and> \<not> isRapidChangeAlert current a
          \<and> severity a =
              (if jgt (volumeIncrease current
                         (averageVolumeOf (intradayOf intradayDataMap current) current)) (Finite 300)
               then Critical
               else if jgt (volumeIncrease current
                              (averageVolumeOf (intradayOf intradayDataMap current) current)) (Finite 200)
               then High else Medium)"
    and m3: "\<forall>a\<in>set l3. \<not> isMomentumAlert current a \<and> \<not> isVolumeSpikeAlert current a
          \<and> isAfterHoursAlert current a \<and> \<not> isRapidChangeAlert current a \<and> severity a = High"
    and m4: "\<forall>a\<in>set l4. \<not> isMomentumAlert current a \<and> \<not> isVolumeSpikeAlert current a
          \<and> \<not> isAfterHoursAlert current a \<and> isRapidChangeAlert current a
          \<and> severity a = (if jgt (jabs (changePercent current)) (Finite 5) then Critical else High)"
    by (rule stockAlerts_parts [OF assms(1), of e previousData intradayDataMap tick])
  have avg: "intradayOf intradayDataMap current = [] \<Longrightarrow>
      averageVolumeOf (intradayOf intradayDataMap current) current = volume current"
    by (simp add: averageVolumeOf_def)
  have e4: "previousData (symbol current) = None \<Longrightarrow> l4 = []"
    using f4 by blast
  have e1: "length (intradayOf intradayDataMap current) < 2 \<Longrightarrow> l1 = []"
    using f1 by auto
  have e2: "intradayOf intradayDataMap current = [] \<Longrightarrow> \<not> jgt (Finite 0) (volume current)
      \<Longrightarrow> l2 = []"
    using f2 avg volume_above_twice_itself [of "volume current"] by auto
  show ?thesis
    unfolding res using e1 e2 e4 m1 m2 m3 m4 by auto
qed

lemma stockAlerts_returns:
  assumes "symbol current \<noteq> []"
  shows "\<exists>alerts tick'. stockAlerts e previousData intradayDataMap current tick = Inr (alerts, tick')"
  using absent_inputs_suppress_rules [OF assms] by blast

lemma forEachStock_returns:
  assumes "\<forall>c\<in>set stockData. symbol c \<noteq> []"
  shows "\<exists>alerts tick'. forEachStock e previousData intradayDataMap stockData acc tick
            = Inr (alerts, tick')"
  using assms
proof (induction stockData arbitrary: acc tick)
  case Nil
  then show ?case by simp
next
  case (Cons c cs)
  then obtain l t where "stockAlerts e previousData intradayDataMap c tick = Inr (l, t)"
    using stockAlerts_returns [of c e previousData intradayDataMap tick] by auto
  moreover obtain alerts tick' where
    "forEachStock e previousData intradayDataMap cs (acc @ l) t = Inr (alerts, tick')"
    using Cons.IH [of "acc @ l" t] Cons.prems by auto
  ultimately show ?case by simp
qed

lemma engine_returns:
  assumes "\<forall>c\<in>set stockData. symbol c \<noteq> []"
  shows "\<exists>alerts. generateAlertsFromStockData e stockData previousData intradayDataMap = Inr alerts"
proof -
  obtain alerts tick' where "forEachStock e previousData intradayDataMap stockData [] 0
            = Inr (alerts, tick')"
    using forEachStock_returns [OF assms] by blast
  then show ?thesis by (simp add: generateAlertsFromStockData_def)
qed
section \<open>Every alert the engine returns was built by createAlert\<close>

lemma builtSeq_Nil [simp]: "builtSeq e c tick []"
  by (simp add: builtSeq_def)

lemma builtSeq_single [simp]: "builtSeq e c tick [a] \<longleftrightarrow> builtBy e c tick a"
  by (simp add: builtSeq_def)

lemma builtSeq_append:
  assumes "builtSeq e c tick l1" and "builtSeq e c (tick + 2 * length l1) l2"
  shows "builtSeq e c tick (l1 @ l2)"
  unfolding builtSeq_def
proof (intro allI impI)
  fix i assume i: "i < length (l1 @ l2)"
  show "builtBy e c (tick + 2 * i) ((l1 @ l2) ! i)"
  proof (cases "i < length l1")
    case True
    then show ?thesis using assms(1) by (simp add: builtSeq_def nth_append)
  next
    case False
    then have "i - length l1 < length l2" using i by simp
    then have "builtBy e c (tick + 2 * length l1 + 2 * (i - length l1)) (l2 ! (i - length l1))"
      using assms(2) by (simp add: builtSeq_def)
    moreover have "tick + 2 * length l1 + 2 * (i - length l1) = tick + 2 * i"
      using False by simp
    ultimately show ?thesis using False by (simp add: nth_append)
  qed
qed

lemma builtBy_newAlert:
  "symbol c \<noteq> [] \<Longrightarrow>
   builtBy e c k (newAlert e k ''Market Manipulation'' sev c desc
                    (of_char (hd (symbol c)) mod length traderNames))"
  unfolding builtBy_def by blast

lemma priceSpikeCheck_built:
  assumes "priceSpikeCheck e intraday c tick = Inr (l, t')"
  shows "t' = tick + 2 * length l \<and> length l \<le> 1 \<and> builtSeq e c tick l"
proof (cases "symbol c = []")
  case True
  then show ?thesis using assms by (auto simp: priceSpikeCheck_empty split: if_splits)
next
  case False
  then show ?thesis
    using assms by (auto simp: priceSpikeCheck_nonempty builtBy_newAlert split: if_splits)
qed

lemma volumeSpikeCheck_built:
  assumes "volumeSpikeCheck e avg c tick = Inr (l, t')"
  shows "t' = tick + 2 * length l \<and> length l \<le> 1 \<and> builtSeq e c tick l"
proof (cases "symbol c = []")
  case True
  then show ?thesis using assms by (auto simp: volumeSpikeCheck_empty split: if_splits)
next
  case False
  then show ?thesis
    using assms by (auto simp: volumeSpikeCheck_nonempty builtBy_newAlert split: if_splits)
qed

lemma afterHoursCheck_built:
  assumes "afterHoursCheck e c tick = Inr (l, t')"
  shows "t' = tick + 2 * length l \<and> length l \<le> 1 \<and> builtSeq e c tick l"
proof (cases "symbol c = []")
  case True
  then show ?thesis using assms by (auto simp: afterHoursCheck_empty split: if_splits)
next
  case False
  then show ?thesis
    using assms by (auto simp: afterHoursCheck_nonempty builtBy_newAlert split: if_splits)
qed

lemma rapidChangeCheck_built:
  assumes "rapidChangeCheck e previous c tick = Inr (l, t')"
  shows "t' = tick + 2 * length l \<and> length l \<le> 1 \<and> builtSeq e c tick l"
proof (cases "symbol c = []")
  case True
  then show ?thesis using assms by (auto simp: rapidChangeCheck_empty split: if_splits)
next
  case False
  then show ?thesis
    using assms by (auto simp: rapidChangeCheck_nonempty builtBy_newAlert split: if_splits)
qed

lemma stockAlerts_blocks:
  assumes "stockAlerts e p h c tick = Inr (l, t')"
  obtains l1 l2 l3 l4 where
    "l = l1 @ l2 @ l3 @ l4"
    "priceSpikeCheck e (intradayOf h c) c tick = Inr (l1, tick + 2 * length l1)"
    "volumeSpikeCheck e (averageVolumeOf (intradayOf h c) c) c (tick + 2 * length l1)
       = Inr (l2, tick + 2 * length (l1 @ l2))"
    "afterHoursCheck e c (tick + 2 * length (l1 @ l2)) = Inr (l3, tick + 2 * length (l1 @ l2 @ l3))"
    "rapidChangeCheck e (p (symbol c)) c (tick + 2 * length (l1 @ l2 @ l3)) = Inr (l4, t')"
proof -
  from assms obtain l123 t3 l4 where
    a3: "andThen (andThen (priceSpikeCheck e (intradayOf h c) c tick)
                    (volumeSpikeCheck e (averageVolumeOf (intradayOf h c) c) c))
           (afterHoursCheck e c) = Inr (l123, t3)"
    and b4: "rapidChangeCheck e (p (symbol c)) c t3 = Inr (l4, t')" and l: "l = l123 @ l4"
    unfolding stockAlerts_def Let_def by (rule andThen_returns)
  from a3 obtain l12 t2 l3 where
    a2: "andThen (priceSpikeCheck e (intradayOf h c) c tick)
           (volumeSpikeCheck e (averageVolumeOf (intradayOf h c) c) c) = Inr (l12, t2)"
    and b3: "afterHoursCheck e c t2 = Inr (l3, t3)" and l123: "l123 = l12 @ l3"
    by (rule andThen_returns)
  from a2 obtain l1 t1 l2 where
    b1: "priceSpikeCheck e (intradayOf h c) c tick = Inr (l1, t1)"
    and b2: "volumeSpikeCheck e (averageVolumeOf (intradayOf h c) c) c t1 = Inr (l2, t2)"
    and l12: "l12 = l1 @ l2"
    by (rule andThen_returns)
  have t1: "t1 = tick + 2 * length l1" using priceSpikeCheck_built [OF b1] by simp
  have t2: "t2 = tick + 2 * length (l1 @ l2)" using volumeSpikeCheck_built [OF b2] t1 by simp
  have t3: "t3 = tick + 2 * length (l1 @ l2 @ l3)" using afterHoursCheck_built [OF b3] t2 by simp
  show thesis
    using that [of l1 l2 l3 l4] l l123 l12 b1 b2 b3 b4 t1 t2 t3 by simp
qed

lemma stockAlerts_built:
  assumes "stockAlerts e p h c tick = Inr (l, t')"
  shows "t' = tick + 2 * length l \<and> length l \<le> 4 \<and> builtSeq e c tick l"
proof -
  obtain l1 l2 l3 l4 where l: "l = l1 @ l2 @ l3 @ l4"
    and b1: "priceSpikeCheck e (intradayOf h c) c tick = Inr (l1, tick + 2 * length l1)"
    and b2: "volumeSpikeCheck e (averageVolumeOf (intradayOf h c) c) c (tick + 2 * length l1)
       = Inr (l2, tick + 2 * length (l1 @ l2))"
    and b3: "afterHoursCheck e c (tick + 2 * length (l1 @ l2))
       = Inr (l3, tick + 2 * length (l1 @ l2 @ l3))"
    and b4: "rapidChangeCheck e (p (symbol c)) c (tick + 2 * length (l1 @ l2 @ l3)) = Inr (l4, t')"
    using assms by (rule stockAlerts_blocks)
  note s1 = priceSpikeCheck_built [OF b1] and s2 = volumeSpikeCheck_built [OF b2]
    and s3 = afterHoursCheck_built [OF b3] and s4 = rapidChangeCheck_built [OF b4]
  have q34: "builtSeq e c (tick + 2 * length (l1 @ l2)) (l3 @ l4)"
    by (rule builtSeq_append) (use s3 s4 in \<open>simp_all add: algebra_simps\<close>)
  have q234: "builtSeq e c (tick + 2 * length l1) (l2 @ l3 @ l4)"
    by (rule builtSeq_append) (use s2 q34 in \<open>simp_all add: algebra_simps\<close>)
  have "builtSeq e c tick (l1 @ l2 @ l3 @ l4)"
    by (rule builtSeq_append) (use s1 q234 in simp_all)
  moreover have "t' = tick + 2 * length l" using s4 l by simp
  moreover have "length l \<le> 4" using s1 s2 s3 s4 l by simp
  ultimately show ?thesis using l by simp
qed

lemma forEachStock_built:
  assumes "forEachStock e p h stockData acc tick = Inr (alerts, t')"
  shows "\<exists>new. alerts = acc @ new \<and> t' \<le> tick + 8 * length stockData
           \<and> (\<forall>a\<in>set new. \<exists>c\<in>set stockData. \<exists>k. builtBy e c k a)"
  using assms
proof (induction stockData arbitrary: acc tick)
  case Nil
  then show ?case by simp
next
  case (Cons c cs)
  from Cons.prems obtain l t where
    s: "stockAlerts e p h c tick = Inr (l, t)"
    and r: "forEachStock e p h cs (acc @ l) t = Inr (alerts, t')"
    by (auto split: sum.splits)
  from stockAlerts_built [OF s] have t: "t = tick + 2 * length l" "length l \<le> 4"
    and b: "builtSeq e c tick l" by simp_all
  from Cons.IH [OF r] obtain new where new: "alerts = (acc @ l) @ new"
    "t' \<le> t + 8 * length cs" "\<forall>a\<in>set new. \<exists>c\<in>set cs. \<exists>k. builtBy e c k a"
    by blast
  have "\<forall>a\<in>set l. \<exists>k. builtBy e c k a"
    using b unfolding builtSeq_def by (metis in_set_conv_nth)
  then have "\<forall>a\<in>set (l @ new). \<exists>c'\<in>set (c # cs). \<exists>k. builtBy e c' k a"
    using new(3) by auto
  moreover have "t' \<le> tick + 8 * length (c # cs)" using new(2) t by simp
  ultimately show ?case using new(1) by (intro exI [of _ "l @ new"]) simp
qed

lemma engine_built:
  assumes "generateAlertsFromStockData e stockData p h = Inr alerts" and "a \<in> set alerts"
  shows "\<exists>c\<in>set stockData. \<exists>k. builtBy e c k a"
proof -
  from assms(1) obtain t' where "forEachStock e p h stockData [] 0 = Inr (alerts, t')"
    by (auto simp: generateAlertsFromStockData_def split: sum.splits)
  from forEachStock_built [OF this] assms(2) show ?thesis by auto
qed
section \<open>The engine runs the body for each snapshot in turn\<close>

lemma forEachStock_append:
  "forEachStock e p h (xs @ ys) acc tick =
     (case forEachStock e p h xs acc tick of
        Inl err \<Rightarrow> Inl err
      | Inr (alerts, t) \<Rightarrow> forEachStock e p h ys alerts t)"
  by (induction xs arbitrary: acc tick) (auto split: sum.splits)

lemma engine_single:
  "generateAlertsFromStockData e [current] p h =
     (case stockAlerts e p h current 0 of Inl err \<Rightarrow> Inl err | Inr (alerts, t) \<Rightarrow> Inr alerts)"
  by (auto simp: generateAlertsFromStockData_def split: sum.splits)

text \<open>
  Whatever the list, the alerts the engine returns hold, side by side and in order,
  what \<open>stockAlerts\<close> returned for each snapshot.
\<close>

lemma engine_runs_stockAlerts:
  assumes "generateAlertsFromStockData e (pre @ current # post) p h = Inr alerts"
  shows "\<exists>before tick pushed tick' after.
           stockAlerts e p h current tick = Inr (pushed, tick')
         \<and> alerts = before @ pushed @ after"
proof -
  from assms obtain t' where
    all: "forEachStock e p h (pre @ current # post) [] 0 = Inr (alerts, t')"
    by (auto simp: generateAlertsFromStockData_def split: sum.splits)
  then obtain before tick where
    pre: "forEachStock e p h pre [] 0 = Inr (before, tick)"
    and rest: "forEachStock e p h (current # post) before tick = Inr (alerts, t')"
    by (auto simp: forEachStock_append split: sum.splits)
  from rest obtain pushed tick' where
    cur: "stockAlerts e p h current tick = Inr (pushed, tick')"
    and post: "forEachStock e p h post (before @ pushed) tick' = Inr (alerts, t')"
    by (auto split: sum.splits)
  from forEachStock_built [OF post] obtain after where "alerts = (before @ pushed) @ after"
    by blast
  with cur show ?thesis by auto
qed

section \<open>Alert construction\<close>

lemma builtBy_fields:
  assumes "builtBy e c k a"
  shows "alert_type a = ''Market Manipulation''"
    and "status a = New"
    and "alert_id a = alertId (clock e k) (symbol c)"
    and "trader a = traderProfile e (symbol c) (of_char (hd (symbol c)) mod length traderNames)"
    and "\<exists>ev. timeline a = [ev] \<and> action ev = ''Alert Created'' \<and> user ev = ''Automated System''"
    and "symbol c \<noteq> []"
  using assms by (auto simp: builtBy_def newAlert_def)

text \<open>
  Claim C4. Every alert the engine returns has a type among the five of \<open>alertTypes\<close>
  (\<open>createAlert\<close> turns "Unusual Activity" and "Suspicious Trading Pattern", which are
  not among them, into "Market Manipulation"), has status New, carries the trader profile
  of its snapshot's symbol (the name is the entry of the fixed pool at the code of the
  symbol's first character modulo 8, the e-mail is made from that name, the identifier from
  the symbol, the firm is fixed), and has a timeline of exactly one event, "Alert Created"
  by "Automated System".
\<close>

theorem alert_construction:
  assumes "generateAlertsFromStockData e stockData previousData intradayDataMap = Inr alerts"
    and "a \<in> set alerts"
  shows "alert_type a \<in> set alertTypes
    \<and> status a = New
    \<and> (\<exists>current\<in>set stockData. \<exists>first rest. symbol current = first # rest
          \<and> trader a =
              \<lparr> trader_id = ''TRD'' @ symbol current,
                name = traderNames ! (of_char first mod 8),
                email = replaceFirst CHR '' '' CHR ''.''
                          (toLowerCase (traderNames ! (of_char first mod 8))) @ ''@trading.com'',
                firm = ''Market Participant'',
                registrationDate = localEpoch2020 e \<rparr>)
    \<and> (\<exists>ev. timeline a = [ev] \<and> action ev = ''Alert Created'' \<and> user ev = ''Automated System'')
    \<and> ''Unusual Activity'' \<notin> set alertTypes
    \<and> ''Suspicious Trading Pattern'' \<notin> set alertTypes
    \<and> (\<forall>tick ty sev c desc a' tick'.
          createAlert e tick ty sev c desc = Inr (a', tick') \<longrightarrow>
          alert_type a' = (if ty \<in> set alertTypes then ty else ''Market Manipulation''))"
proof -
  obtain c k where c: "c \<in> set stockData" and b: "builtBy e c k a"
    using engine_built [OF assms] by blast
  note f = builtBy_fields [OF b]
  obtain first rest where s: "symbol c = first # rest"
    using f(6) by (cases "symbol c") auto
  have "trader a =
              \<lparr> trader_id = ''TRD'' @ symbol c,
                name = traderNames ! (of_char first mod 8),
                email = replaceFirst CHR '' '' CHR ''.''
                          (toLowerCase (traderNames ! (of_char first mod 8))) @ ''@trading.com'',
                firm = ''Market Participant'',
                registrationDate = localEpoch2020 e \<rparr>"
    using f(4) s by (simp add: traderProfile_def traderNames_def)
  then have t: "\<exists>current\<in>set stockData. \<exists>first rest. symbol current = first # rest
          \<and> trader a =
              \<lparr> trader_id = ''TRD'' @ symbol current,
                name = traderNames ! (of_char first mod 8),
                email = replaceFirst CHR '' '' CHR ''.''
                          (toLowerCase (traderNames ! (of_char first mod 8))) @ ''@trading.com'',
                firm = ''Market Participant'',
                registrationDate = localEpoch2020 e \<rparr>"
    using c s by blast
  have ty: "alert_type a \<in> set alertTypes" using f(1) by (simp add: alertTypes_def)
  have remap: "\<forall>tick ty sev c desc a' tick'.
          createAlert e tick ty sev c desc = Inr (a', tick') \<longrightarrow>
          alert_type a' = (if ty \<in> set alertTypes then ty else ''Market Manipulation'')"
    by (auto simp: createAlert_def newAlert_def Let_def split: option.splits)
  have out: "''Unusual Activity'' \<notin> set alertTypes" "''Suspicious Trading Pattern'' \<notin> set alertTypes"
    by (simp_all add: alertTypes_def)
  show ?thesis using ty f(2) t f(5) out remap by blast
qed

theorem alert_construction_witness:
  "\<exists>a a'. generateAlertsFromStockData (sampleEnv 10) [sampleStock ''TSLA'' 3000000 0] Map.empty
          [''TSLA'' \<mapsto> [samplePoint 100 900000]] = Inr [a]
      \<and> a \<in> set [a]
      \<and> alert_type a \<in> set alertTypes
      \<and> status a = New
      \<and> name (trader a) = ''David Kim''
      \<and> email (trader a) = ''david.kim@trading.com''
      \<and> trader_id (trader a) = ''TRDTSLA''
      \<and> (\<exists>ev. timeline a = [ev] \<and> action ev = ''Alert Created'' \<and> user ev = ''Automated System'')
      \<and> createAlert (sampleEnv 10) 0 ''Unusual Activity'' Medium (sampleStock ''TSLA'' 3000000 0)
            ''sample'' = Inr (a', 2)
      \<and> alert_type a' = ''Market Manipulation''"
proof -
  obtain a where g: "generateAlertsFromStockData (sampleEnv 10) [sampleStock ''TSLA'' 3000000 0]
      Map.empty [''TSLA'' \<mapsto> [samplePoint 100 900000]] = Inr [a]"
    by (simp add: generateAlertsFromStockData_def stockAlerts_def intradayOf_def sampleStock_def
        samplePoint_def averageVolumeOf_def priceSpikeCheck_def volumeSpikeCheck_nonempty
        afterHoursCheck_def rapidChangeCheck_def sampleEnv_def jsub_def volumeIncrease_def)
  obtain a' where c: "createAlert (sampleEnv 10) 0 ''Unusual Activity'' Medium
      (sampleStock ''TSLA'' 3000000 0) ''sample'' = Inr (a', 2)"
    by (simp add: createAlert_nonempty sampleStock_def)
  have m: "a \<in> set [a]" by simp
  note r = alert_construction [OF g m]
  from r have t: "trader a =
              \<lparr> trader_id = ''TRD'' @ ''TSLA'',
                name = traderNames ! (of_char CHR ''T'' mod 8),
                email = replaceFirst CHR '' '' CHR ''.''
                          (toLowerCase (traderNames ! (of_char CHR ''T'' mod 8))) @ ''@trading.com'',
                firm = ''Market Participant'',
                registrationDate = localEpoch2020 (sampleEnv 10) \<rparr>"
    by (auto simp: sampleStock_def)
  have n: "traderNames ! (of_char CHR ''T'' mod 8) = ''David Kim''"
    by (simp add: traderNames_def)
  have l: "replaceFirst CHR '' '' CHR ''.'' (toLowerCase ''David Kim'') = ''david.kim''"
    by (simp add: toLowerCase_def lowerChar_def char_of_def bit_Suc_0_iff)
  have "name (trader a) = ''David Kim''" "email (trader a) = ''david.kim@trading.com''"
    "trader_id (trader a) = ''TRDTSLA''"
    unfolding t n by (simp_all add: l)
  moreover have "alert_type a' = ''Market Manipulation''"
  proof -
    from r have "\<forall>tick ty sev c desc a' tick'.
          createAlert (sampleEnv 10) tick ty sev c desc = Inr (a', tick') \<longrightarrow>
          alert_type a' = (if ty \<in> set alertTypes then ty else ''Market Manipulation'')"
      by blast
    from this [rule_format, OF c] show ?thesis by (simp add: alertTypes_def)
  qed
  ultimately show ?thesis using g c m r by blast
qed

section \<open>Alert identifiers\<close>

lemma of_char_digit: "d < 10 \<Longrightarrow> (of_char (digit d) :: nat) = 48 + d"
  by (simp add: digit_def)

lemma digit_not_dash: "d < 10 \<Longrightarrow> digit d \<noteq> CHR ''-''"
proof
  assume "d < 10" "digit d = CHR ''-''"
  then have "(of_char (digit d) :: nat) = of_char (CHR ''-'')" by simp
  with \<open>d < 10\<close> show False by (simp add: of_char_digit)
qed

lemma digit_inj:
  assumes "d < 10" and "d' < 10" and "digit d = digit d'"
  shows "d = d'"
proof -
  have "(of_char (digit d) :: nat) = of_char (digit d')" by (simp only: assms(3))
  then have "48 + d = 48 + d'" by (simp only: of_char_digit [OF assms(1)] of_char_digit [OF assms(2)])
  then show ?thesis by simp
qed

lemma string_of_nat_nonempty: "string_of_nat n \<noteq> []"
  by (subst string_of_nat.simps) simp

lemma string_of_nat_no_dash: "CHR ''-'' \<notin> set (string_of_nat n)"
proof (induction n rule: string_of_nat.induct)
  case (1 n)
  show ?case
  proof (cases "n < 10")
    case True
    then show ?thesis
      using digit_not_dash [of n] by (subst string_of_nat.simps) auto
  next
    case False
    then show ?thesis
      using "1.IH" digit_not_dash [of "n mod 10"] by (subst string_of_nat.simps) auto
  qed
qed

lemma string_of_nat_inj: "string_of_nat n = string_of_nat m \<Longrightarrow> n = m"
proof (induction n arbitrary: m rule: string_of_nat.induct)
  case (1 n)
  show ?case
  proof (cases "n < 10")
    case n: True
    show ?thesis
    proof (cases "m < 10")
      case True
      with n "1.prems" show ?thesis
        using digit_inj [of n m] string_of_nat.simps [of n] string_of_nat.simps [of m] by simp
    next
      case False
      with n "1.prems" have "[digit n] = string_of_nat (m div 10) @ [digit (m mod 10)]"
        using string_of_nat.simps [of n] string_of_nat.simps [of m] by simp
      then show ?thesis using string_of_nat_nonempty [of "m div 10"] by simp
    qed
  next
    case n: False
    show ?thesis
    proof (cases "m < 10")
      case True
      with n "1.prems" have "string_of_nat (n div 10) @ [digit (n mod 10)] = [digit m]"
        using string_of_nat.simps [of n] string_of_nat.simps [of m] by simp
      then show ?thesis using string_of_nat_nonempty [of "n div 10"] by simp
    next
      case False
      with n "1.prems" have
        "string_of_nat (n div 10) @ [digit (n mod 10)] = string_of_nat (m div 10) @ [digit (m mod 10)]"
        using string_of_nat.simps [of n] string_of_nat.simps [of m] by simp
      then have "string_of_nat (n div 10) = string_of_nat (m div 10)"
        and d: "digit (n mod 10) = digit (m mod 10)"
        by simp_all
      then have "n div 10 = m div 10" using "1.IH" [OF n] by simp
      moreover have "n mod 10 = m mod 10" using d digit_inj [of "n mod 10" "m mod 10"] by simp
      ultimately show ?thesis by (metis div_mult_mod_eq)
    qed
  qed
qed

lemma split_at_dash:
  assumes "CHR ''-'' \<notin> set xs" and "CHR ''-'' \<notin> set ys"
    and "xs @ CHR ''-'' # s = ys @ CHR ''-'' # s'"
  shows "xs = ys \<and> s = s'"
proof -
  have "takeWhile (\<lambda>c. c \<noteq> CHR ''-'') (xs @ CHR ''-'' # s) = xs"
    and "takeWhile (\<lambda>c. c \<noteq> CHR ''-'') (ys @ CHR ''-'' # s') = ys"
    using assms(1,2) by (auto simp: takeWhile_tail)
  with assms(3) have "xs = ys" by simp
  with assms(3) show ?thesis by simp
qed

lemma alertId_inj: "alertId ms s = alertId ms' s' \<longleftrightarrow> ms = ms' \<and> s = s'"
proof
  assume "alertId ms s = alertId ms' s'"
  then have "string_of_nat ms @ CHR ''-'' # s = string_of_nat ms' @ CHR ''-'' # s'"
    by (simp add: alertId_def)
  from split_at_dash [OF string_of_nat_no_dash string_of_nat_no_dash this]
  show "ms = ms' \<and> s = s'" using string_of_nat_inj by blast
qed simp

text \<open>
  Claim C10. The identifier of every alert the engine emits is "ALT", the decimal digits
  of one reading of \<open>Date.now()\<close>, "-", and the snapshot's symbol: the \<open>i\<close>-th alert
  pushed for a snapshot carries the reading \<open>tick + 2 * i\<close>. Two such identifiers are
  equal exactly when the readings and the symbols are: alerts of one symbol built within
  one millisecond share their identifier, and alerts of distinct symbols never do.
\<close>

theorem alert_identifier:
  "(stockAlerts e previousData intradayDataMap current tick = Inr (new, tick') \<longrightarrow>
      (\<forall>i<length new.
          alert_id (new ! i)
            = ''ALT'' @ string_of_nat (clock e (tick + 2 * i)) @ ''-'' @ symbol current))
   \<and> (generateAlertsFromStockData e stockData previousData intradayDataMap = Inr alerts \<longrightarrow>
      (\<forall>a\<in>set alerts. \<exists>c\<in>set stockData. \<exists>k.
          alert_id a = ''ALT'' @ string_of_nat (clock e k) @ ''-'' @ symbol c))
   \<and> ((''ALT'' @ string_of_nat ms @ ''-'' @ s = ''ALT'' @ string_of_nat ms' @ ''-'' @ s')
        \<longleftrightarrow> ms = ms' \<and> s = s')"
proof (intro conjI impI)
  assume "stockAlerts e previousData intradayDataMap current tick = Inr (new, tick')"
  from stockAlerts_built [OF this] have "builtSeq e current tick new" by simp
  then show "\<forall>i<length new.
          alert_id (new ! i)
            = ''ALT'' @ string_of_nat (clock e (tick + 2 * i)) @ ''-'' @ symbol current"
    using builtBy_fields(3) by (simp add: builtSeq_def alertId_def)
next
  assume g: "generateAlertsFromStockData e stockData previousData intradayDataMap = Inr alerts"
  show "\<forall>a\<in>set alerts. \<exists>c\<in>set stockData. \<exists>k.
          alert_id a = ''ALT'' @ string_of_nat (clock e k) @ ''-'' @ symbol c"
  proof
    fix a assume "a \<in> set alerts"
    from engine_built [OF g this] obtain c k where "c \<in> set stockData" "builtBy e c k a"
      by blast
    then show "\<exists>c\<in>set stockData. \<exists>k.
          alert_id a = ''ALT'' @ string_of_nat (clock e k) @ ''-'' @ symbol c"
      using builtBy_fields(3) [of e c k a] by (auto simp: alertId_def)
  qed
next
  show "(''ALT'' @ string_of_nat ms @ ''-'' @ s = ''ALT'' @ string_of_nat ms' @ ''-'' @ s')
        \<longleftrightarrow> ms = ms' \<and> s = s'"
    using alertId_inj [of ms s ms' s'] by (simp add: alertId_def)
qed

text \<open>
  At 20:00, with every clock reading in the same millisecond, a volume of 3,000,000 against
  a mean of 900,000 fires the volume-spike and the after-hours rules: two alerts for TSLA
  with one identifier.
\<close>

theorem alert_identifier_witness:
  "\<exists>a b. stockAlerts (sampleEnv 20) Map.empty [''TSLA'' \<mapsto> [samplePoint 100 900000]]
            (sampleStock ''TSLA'' 3000000 0) 0 = Inr ([a, b], 4)
     \<and> generateAlertsFromStockData (sampleEnv 20) [sampleStock ''TSLA'' 3000000 0] Map.empty
            [''TSLA'' \<mapsto> [samplePoint 100 900000]] = Inr [a, b]
     \<and> isVolumeSpikeAlert (sampleStock ''TSLA'' 3000000 0) a
     \<and> isAfterHoursAlert (sampleStock ''TSLA'' 3000000 0) b
     \<and> alert_id a = ''ALT'' @ string_of_nat 1700000000000 @ ''-TSLA''
     \<and> alert_id b = alert_id a
     \<and> (\<forall>x\<in>set [a, b]. \<exists>k. alert_id x
            = ''ALT'' @ string_of_nat (clock (sampleEnv 20) k) @ ''-TSLA'')"
proof -
  obtain a b where r: "stockAlerts (sampleEnv 20) Map.empty [''TSLA'' \<mapsto> [samplePoint 100 900000]]
            (sampleStock ''TSLA'' 3000000 0) 0 = Inr ([a, b], 4)"
    and k: "isVolumeSpikeAlert (sampleStock ''TSLA'' 3000000 0) a"
      "isAfterHoursAlert (sampleStock ''TSLA'' 3000000 0) b"
    by (simp add: stockAlerts_def intradayOf_def sampleStock_def isVolumeSpikeAlert_def
        isAfterHoursAlert_def newAlert_def
        samplePoint_def averageVolumeOf_def priceSpikeCheck_def volumeSpikeCheck_nonempty
        afterHoursCheck_nonempty rapidChangeCheck_def sampleEnv_def jsub_def volumeIncrease_def)
  have g: "generateAlertsFromStockData (sampleEnv 20) [sampleStock ''TSLA'' 3000000 0] Map.empty
            [''TSLA'' \<mapsto> [samplePoint 100 900000]] = Inr [a, b]"
    by (simp add: generateAlertsFromStockData_def r)
  note inst = alert_identifier [of "sampleEnv 20" Map.empty
      "[''TSLA'' \<mapsto> [samplePoint 100 900000]]" "sampleStock ''TSLA'' 3000000 0" 0 "[a, b]" 4
      "[sampleStock ''TSLA'' 3000000 0]" "[a, b]"]
  from inst r
  have ids: "\<forall>i<length [a, b]. alert_id ([a, b] ! i)
      = ''ALT'' @ string_of_nat (clock (sampleEnv 20) (0 + 2 * i)) @ ''-''
          @ symbol (sampleStock ''TSLA'' 3000000 0)"
    by blast
  from inst g
  have all: "\<forall>x\<in>set [a, b]. \<exists>c\<in>set [sampleStock ''TSLA'' 3000000 0]. \<exists>k.
          alert_id x = ''ALT'' @ string_of_nat (clock (sampleEnv 20) k) @ ''-'' @ symbol c"
    by blast
  have "alert_id a = ''ALT'' @ string_of_nat 1700000000000 @ ''-TSLA''"
    using ids [rule_format, of 0] by (simp add: sampleEnv_def sampleStock_def)
  moreover have "alert_id b = ''ALT'' @ string_of_nat 1700000000000 @ ''-TSLA''"
    using ids [rule_format, of 1] by (simp add: sampleEnv_def sampleStock_def)
  moreover have "\<forall>x\<in>set [a, b]. \<exists>k. alert_id x
            = ''ALT'' @ string_of_nat (clock (sampleEnv 20) k) @ ''-TSLA''"
    using all by (simp add: sampleStock_def)
  ultimately show ?thesis using r g k by auto
qed
section \<open>What the result depends on\<close>












section \<open>Merging a batch into the store\<close>






text \<open>
  The filter of line 84 compares the batch with the collection only: two alerts of one
  batch with one identifier, which the engine emits when two rules fire for a symbol
  within one millisecond, both enter the store.
\<close>

lemma merge_keeps_batch_duplicates:
  "mergeAlerts sampleGetTime []
      [sampleAlert ''ALT3-TSLA'' New ''2024-01-02T16:00:00.000Z'' [],
       sampleAlert ''ALT3-TSLA'' New ''2024-01-02T16:00:00.000Z'' []]
     = [sampleAlert ''ALT3-TSLA'' New ''2024-01-02T16:00:00.000Z'' [],
        sampleAlert ''ALT3-TSLA'' New ''2024-01-02T16:00:00.000Z'' []]"
  by (simp add: mergeAlerts_def sampleAlert_def sampleGetTime_def)
section \<open>The false-positive rate\<close>





section \<open>The average investigation time\<close>





section \<open>The workflow\<close>

lemma buttons_table:
  "buttons New = [(InReview, ''Start Investigation''), (Escalated, ''Escalate''),
                  (Dismissed, ''Dismiss''), (Resolved, ''Mark Resolved'')]"
  "buttons InReview = [(Escalated, ''Escalate''), (Dismissed, ''Dismiss''),
                       (Resolved, ''Mark Resolved'')]"
  "buttons Escalated = [(Dismissed, ''Dismiss''), (Resolved, ''Mark Resolved'')]"
  "buttons Dismissed = []"
  "buttons Resolved = []"
  by (simp_all add: buttons_def)

lemma terminal_states_offer_nothing:
  "buttons st = [] \<longleftrightarrow> st = Dismissed \<or> st = Resolved"
  by (cases st) (simp_all add: buttons_table)

lemma start_investigation_only_from_new:
  "(InReview, ''Start Investigation'') \<in> set (buttons st) \<longleftrightarrow> st = New"
  by (cases st) (simp_all add: buttons_table)

text \<open>
  What a click writes: the stored alert with the prop's identifier gets the button's
  status and the \<^emph>\<open>prop's\<close> timeline with one event appended. The stored alert's own
  timeline is not read.
\<close>

lemma pressButton_writes:
  assumes "app_selectedAlert s = Some alert"
    and "button \<in> set (buttons (status alert))"
    and "a \<in> set (app_alerts s)"
    and "alert_id a = alert_id alert"
  shows "\<exists>a'\<in>set (app_alerts (pressButton button notesText now nowIso s)). \<exists>ev.
           status a' = fst button
         \<and> timeline a' = timeline alert @ [ev]
         \<and> action ev = snd button
         \<and> event_notes ev = (if notesText = [] then None else Some notesText)"
  using assms
  by (auto simp: pressButton_def handleAction_def handleUpdateAlert_def Let_def
      intro!: bexI [of _ "a\<lparr>status := fst button, investigationNotes := notesText,
          timeline := timeline alert @ [\<lparr>event_id = alert_id alert @ ''-'' @ string_of_nat now,
              event_timestamp = nowIso, action = snd button, user = ''Current User'',
              event_notes = (if notesText = [] then None else Some notesText)\<rparr>]\<rparr>"])

text \<open>
  Claim C9 says a transition appends one event and never removes one. The modal's
  \<open>alert\<close> prop is \<open>selectedAlert\<close>, which \<open>handleUpdateAlert\<close> does not refresh.
  Open a New alert and press "Start Investigation": the stored alert is In Review with the
  events "Alert Created", "Start Investigation", while the modal, still open, holds the
  New alert and offers all four buttons. Press "Escalate": the stored alert is Escalated
  with the events "Alert Created", "Escalate"; the "Start Investigation" event is gone.
\<close>

theorem stale_modal_drops_timeline_entry:
  "map (\<lambda>a. (status a, map action (timeline a)))
     (app_alerts
        (pressButton (InReview, ''Start Investigation'') ''checking'' 1700000001000
           ''2024-01-02T15:45:00.000Z'' (openAlert freshAlert freshApp)))
     = [(InReview, [''Alert Created'', ''Start Investigation''])]
   \<and> map_option status
       (app_selectedAlert
          (pressButton (InReview, ''Start Investigation'') ''checking'' 1700000001000
             ''2024-01-02T15:45:00.000Z'' (openAlert freshAlert freshApp)))
     = Some New
   \<and> map (\<lambda>a. (status a, map action (timeline a)))
     (app_alerts
        (pressButton (Escalated, ''Escalate'') ''checking'' 1700000002000
           ''2024-01-02T16:00:00.000Z''
           (pressButton (InReview, ''Start Investigation'') ''checking'' 1700000001000
              ''2024-01-02T15:45:00.000Z'' (openAlert freshAlert freshApp))))
     = [(Escalated, [''Alert Created'', ''Escalate''])]"
  by (simp add: pressButton_def openAlert_def freshApp_def freshAlert_def newAlert_def
      handleAction_def handleUpdateAlert_def buttons_table)

end
